theory Spec2Isabelle
  imports Complex_Main
begin

section \<open>The host's vector and matrix library\<close>

text \<open>
  The operator works on \<open>mathutils\<close> vectors and matrices. Their floating-point
  components are modelled by real numbers: every statement below is about exact arithmetic,
  rounding is not modelled.
\<close>

datatype Vector = Vector real real real

fun vadd :: "Vector \<Rightarrow> Vector \<Rightarrow> Vector" where
  "vadd (Vector a b c) (Vector x y z) = Vector (a + x) (b + y) (c + z)"

fun vsub :: "Vector \<Rightarrow> Vector \<Rightarrow> Vector" where
  "vsub (Vector a b c) (Vector x y z) = Vector (a - x) (b - y) (c - z)"

text \<open>\<open>Vector * float\<close>, also the in-place \<open>*=\<close>.\<close>

fun vmul :: "Vector \<Rightarrow> real \<Rightarrow> Vector" where
  "vmul (Vector a b c) k = Vector (a * k) (b * k) (c * k)"

fun dot :: "Vector \<Rightarrow> Vector \<Rightarrow> real" where
  "dot (Vector a b c) (Vector x y z) = a * x + b * y + c * z"

text \<open>\<open>Vector.length\<close>: the Euclidean norm.\<close>

definition vlength :: "Vector \<Rightarrow> real" where
  "vlength v = sqrt (dot v v)"

text \<open>A 3x3 matrix, given by its rows.\<close>

datatype Matrix3 = Matrix3 Vector Vector Vector

fun m3_vec :: "Matrix3 \<Rightarrow> Vector \<Rightarrow> Vector" where
  "m3_vec (Matrix3 r1 r2 r3) v = Vector (dot r1 v) (dot r2 v) (dot r3 v)"

fun m3_transpose :: "Matrix3 \<Rightarrow> Matrix3" where
  "m3_transpose (Matrix3 (Vector a b c) (Vector d e f) (Vector g h i)) =
     Matrix3 (Vector a d g) (Vector b e h) (Vector c f i)"

fun m3_mul :: "Matrix3 \<Rightarrow> Matrix3 \<Rightarrow> Matrix3" where
  "m3_mul (Matrix3 r1 r2 r3) B =
     (let Bt = m3_transpose B in Matrix3 (m3_vec Bt r1) (m3_vec Bt r2) (m3_vec Bt r3))"

fun m3_scale :: "Matrix3 \<Rightarrow> real \<Rightarrow> Matrix3" where
  "m3_scale (Matrix3 r1 r2 r3) k = Matrix3 (vmul r1 k) (vmul r2 k) (vmul r3 k)"

fun m3_det :: "Matrix3 \<Rightarrow> real" where
  "m3_det (Matrix3 (Vector a b c) (Vector d e f) (Vector g h i)) =
     a * (e * i - f * h) - b * (d * i - f * g) + c * (d * h - e * g)"

fun m3_adjugate :: "Matrix3 \<Rightarrow> Matrix3" where
  "m3_adjugate (Matrix3 (Vector a b c) (Vector d e f) (Vector g h i)) =
     Matrix3 (Vector (e * i - f * h) (c * h - b * i) (b * f - c * e))
             (Vector (f * g - d * i) (a * i - c * g) (c * d - a * f))
             (Vector (d * h - e * g) (b * g - a * h) (a * e - b * d))"

fun m3_diag :: "Vector \<Rightarrow> Matrix3" where
  "m3_diag (Vector x y z) = Matrix3 (Vector x 0 0) (Vector 0 y 0) (Vector 0 0 z)"

text \<open>
  An object matrix is a 4x4 matrix whose last row is \<open>(0, 0, 0, 1)\<close>: a 3x3 block and a
  translation column.
\<close>

record Matrix =
  block :: Matrix3
  column :: Vector

text \<open>\<open>Matrix @ Vector\<close> for a 4x4 matrix and a 3D vector.\<close>

definition mat_vec :: "Matrix \<Rightarrow> Vector \<Rightarrow> Vector" where
  "mat_vec M v = vadd (m3_vec (block M) v) (column M)"

text \<open>\<open>Matrix @ Matrix\<close>.\<close>

definition mat_mul :: "Matrix \<Rightarrow> Matrix \<Rightarrow> Matrix" where
  "mat_mul M N = \<lparr>block = m3_mul (block M) (block N),
                  column = vadd (m3_vec (block M) (column N)) (column M)\<rparr>"

definition to_translation :: "Matrix \<Rightarrow> Vector" where
  "to_translation M = column M"

datatype Exception = ValueError | ZeroDivisionError

text \<open>
  \<open>Matrix.inverted()\<close> raises \<open>ValueError\<close> for a matrix whose determinant is zero.
\<close>

definition inverted :: "Matrix \<Rightarrow> Exception + Matrix" where
  "inverted M =
     (if m3_det (block M) = 0 then Inl ValueError
      else let inv = m3_scale (m3_adjugate (block M)) (1 / m3_det (block M))
           in Inr \<lparr>block = inv, column = vmul (m3_vec inv (column M)) (- 1)\<rparr>)"

text \<open>Python's float division.\<close>

definition float_div :: "real \<Rightarrow> real \<Rightarrow> Exception + real" where
  "float_div a b = (if b = 0 then Inl ZeroDivisionError else Inr (a / b))"

section \<open>Objects, meshes and the context\<close>

record BMVert =
  co :: Vector
  select :: bool

text \<open>
  The fields of the active object that the operator reads or writes. \<open>parent\<close> holds the
  parent's \<open>matrix_world\<close> when the object has a parent; \<open>verts\<close> are the vertices of the
  object's edit mesh.
\<close>

record Object =
  obj_type :: string
  location :: Vector
  rotation :: Matrix3
  scale :: Vector
  parent :: "Matrix option"
  verts :: "BMVert list"

text \<open>
  The object's own matrix places a local point by scaling it per axis, rotating it and
  translating it by the location. Its \<open>matrix_world\<close> is that matrix, preceded by the
  parent's world matrix when there is a parent.
\<close>

definition matrix_basis :: "Object \<Rightarrow> Matrix" where
  "matrix_basis obj = \<lparr>block = m3_mul (rotation obj) (m3_diag (scale obj)),
                        column = location obj\<rparr>"

definition matrix_world :: "Object \<Rightarrow> Matrix" where
  "matrix_world obj =
     (case parent obj of
        None \<Rightarrow> matrix_basis obj
      | Some P \<Rightarrow> mat_mul P (matrix_basis obj))"

record Context =
  active_object :: "Object option"
  mode :: string

section \<open>The operator\<close>

datatype Status = FINISHED | CANCELLED

datatype Level = ERROR | WARNING | INFO

type_synonym Report = "Level \<times> string"


definition selected_verts :: "Object \<Rightarrow> BMVert list" where
  "selected_verts obj = filter select (verts obj)"

definition v1_world :: "Object \<Rightarrow> Vector" where
  "v1_world obj = mat_vec (matrix_world obj) (co (selected_verts obj ! 0))"

definition v2_world :: "Object \<Rightarrow> Vector" where
  "v2_world obj = mat_vec (matrix_world obj) (co (selected_verts obj ! 1))"

definition current_distance :: "Object \<Rightarrow> real" where
  "current_distance obj = vlength (vsub (v1_world obj) (v2_world obj))"

definition min_target_distance :: real where
  "min_target_distance = 1 / 1000000"

definition effective_target_distance :: "real \<Rightarrow> real" where
  "effective_target_distance target_distance =
     (if target_distance \<le> 0 then min_target_distance else target_distance)"

definition clamp_reports :: "real \<Rightarrow> Report list" where
  "clamp_reports target_distance =
     (if target_distance \<le> 0
      then [(WARNING, ''Target distance cannot be 0; using minimum value 0.000001'')]
      else [])"

definition pivot :: "Object \<Rightarrow> Vector" where
  "pivot obj = vmul (vadd (v1_world obj) (v2_world obj)) (1 / 2)"

text \<open>
  \<open>execute\<close>, with the operator's \<open>target_distance\<close> and the context as arguments. It
  returns the returned status or the exception raised, the reports made in order, and the
  context with the object as the run leaves it. The indices 0 and 1 into
  \<open>selected_verts\<close> are read only after its length was found to be 2.
\<close>

definition execute :: "real \<Rightarrow> Context \<Rightarrow> (Exception + Status) \<times> Report list \<times> Context" where
  "execute target_distance context =
     (case active_object context of
        None \<Rightarrow> (Inr CANCELLED, [(ERROR, ''Active object is not a mesh'')], context)
      | Some obj \<Rightarrow>
          if obj_type obj \<noteq> ''MESH''
          then (Inr CANCELLED, [(ERROR, ''Active object is not a mesh'')], context)
          else if mode context \<noteq> ''EDIT_MESH''
          then (Inr CANCELLED, [(ERROR, ''Must be in Edit Mode'')], context)
          else if length (selected_verts obj) \<noteq> 2
          then (Inr CANCELLED, [(ERROR, ''Select exactly two vertices'')], context)
          else if current_distance obj = 0
          then (Inr CANCELLED, [(ERROR, ''Selected vertices are at the same location'')],
                context)
          else
            (case float_div (effective_target_distance target_distance)
                            (current_distance obj) of
               Inl e \<Rightarrow> (Inl e, clamp_reports target_distance, context)
             | Inr scale_factor \<Rightarrow>
                 if \<bar>scale_factor - 1\<bar> < 1 / 1000000
                 then (Inr FINISHED,
                       clamp_reports target_distance @ [(INFO, ''No scaling needed'')],
                       context)
                 else
                   let old_world_loc = to_translation (matrix_world obj);
                       new_world_loc =
                         vadd (pivot obj) (vmul (vsub old_world_loc (pivot obj)) scale_factor);
                       obj1 = obj\<lparr>scale := vmul (scale obj) scale_factor\<rparr>
                   in (case parent obj1 of
                         Some P \<Rightarrow>
                           (case inverted P of
                              Inl e \<Rightarrow>
                                (Inl e, clamp_reports target_distance,
                                 context\<lparr>active_object := Some obj1\<rparr>)
                            | Inr Pinv \<Rightarrow>
                                (Inr FINISHED,
                                 clamp_reports target_distance
                                   @ [(INFO, ''Object scaled successfully'')],
                                 context\<lparr>active_object :=
                                   Some (obj1\<lparr>location := mat_vec Pinv new_world_loc\<rparr>)\<rparr>))
                       | None \<Rightarrow>
                           (Inr FINISHED,
                            clamp_reports target_distance
                              @ [(INFO, ''Object scaled successfully'')],
                            context\<lparr>active_object :=
                              Some (obj1\<lparr>location := new_world_loc\<rparr>)\<rparr>))))"

text \<open>The four checks that \<open>execute\<close> makes before it computes anything.\<close>

definition checks_pass :: "Context \<Rightarrow> bool" where
  "checks_pass context =
     (case active_object context of
        None \<Rightarrow> False
      | Some obj \<Rightarrow>
          obj_type obj = ''MESH'' \<and> mode context = ''EDIT_MESH''
          \<and> length (selected_verts obj) = 2 \<and> current_distance obj \<noteq> 0)"

section \<open>Example scenes\<close>

text \<open>
  An untransformed mesh object at the world origin with two selected vertices, at the
  origin and at \<open>(x, 0, 0)\<close>; the same object with a third selected vertex; a parent matrix
  that flattens the z axis (a parent scaled by 0 along z); and the edit-mode context of an
  object.
\<close>

definition segment_object :: "real \<Rightarrow> Object" where
  "segment_object x =
     \<lparr>obj_type = ''MESH'', location = Vector 0 0 0,
      rotation = Matrix3 (Vector 1 0 0) (Vector 0 1 0) (Vector 0 0 1),
      scale = Vector 1 1 1, parent = None,
      verts = [\<lparr>co = Vector 0 0 0, select = True\<rparr>, \<lparr>co = Vector x 0 0, select = True\<rparr>]\<rparr>"

definition triangle_object :: Object where
  "triangle_object =
     (segment_object 2)\<lparr>verts := verts (segment_object 2)
                                   @ [\<lparr>co = Vector 0 2 0, select = True\<rparr>]\<rparr>"

definition flat_parent :: Matrix where
  "flat_parent = \<lparr>block = Matrix3 (Vector 1 0 0) (Vector 0 1 0) (Vector 0 0 0),
                   column = Vector 0 0 0\<rparr>"

definition flattened_object :: Object where
  "flattened_object = (segment_object 2)\<lparr>parent := Some flat_parent\<rparr>"

definition edit_context :: "Object \<Rightarrow> Context" where
  "edit_context obj = \<lparr>active_object = Some obj, mode = ''EDIT_MESH''\<rparr>"

section \<open>Vector and matrix algebra\<close>





lemma m3_vec_mul: "m3_vec (m3_mul A B) v = m3_vec A (m3_vec B v)"
proof (cases A)
  case A: (Matrix3 r1 r2 r3)
  show ?thesis
  proof (cases B)
    case B: (Matrix3 s1 s2 s3)
    show ?thesis
      unfolding A B
      by (cases r1; cases r2; cases r3; cases s1; cases s2; cases s3; cases v)
         (simp add: algebra_simps)
  qed
qed

lemma m3_vec_vadd: "m3_vec A (vadd u v) = vadd (m3_vec A u) (m3_vec A v)"
proof (cases A)
  case A: (Matrix3 r1 r2 r3)
  show ?thesis unfolding A
    by (cases r1; cases r2; cases r3; cases u; cases v) (simp add: algebra_simps)
qed

lemma m3_vec_vmul: "m3_vec A (vmul v k) = vmul (m3_vec A v) k"
proof (cases A)
  case A: (Matrix3 r1 r2 r3)
  show ?thesis unfolding A
    by (cases r1; cases r2; cases r3; cases v) (simp add: algebra_simps)
qed

lemma m3_scale_vec: "m3_vec (m3_scale A k) v = vmul (m3_vec A v) k"
proof (cases A)
  case A: (Matrix3 r1 r2 r3)
  show ?thesis unfolding A
    by (cases r1; cases r2; cases r3; cases v) (simp add: algebra_simps)
qed

lemma m3_adjugate_vec: "m3_vec A (m3_vec (m3_adjugate A) v) = vmul v (m3_det A)"
proof (cases A)
  case A: (Matrix3 r1 r2 r3)
  show ?thesis unfolding A
    by (cases r1; cases r2; cases r3; cases v) (simp add: algebra_simps)
qed

lemma mat_vec_mul: "mat_vec (mat_mul M N) v = mat_vec M (mat_vec N v)"
  by (cases "m3_vec (block M) (m3_vec (block N) v)"; cases "m3_vec (block M) (column N)";
      cases "column M")
     (simp add: mat_vec_def mat_mul_def m3_vec_mul m3_vec_vadd)

lemma vmul_vmul: "vmul (vmul v a) b = vmul v (a * b)"
  by (cases v) simp

lemma vmul_one: "vmul v 1 = v"
  by (cases v) simp

lemma inverted_apply:
  assumes "inverted P = Inr Q"
  shows "mat_vec P (mat_vec Q w) = w"
proof -
  from assms have d: "m3_det (block P) \<noteq> 0"
    by (auto simp: inverted_def split: if_splits)
  from assms d have Q: "Q = \<lparr>block = m3_scale (m3_adjugate (block P)) (1 / m3_det (block P)),
      column = vmul (m3_vec (m3_scale (m3_adjugate (block P)) (1 / m3_det (block P))) (column P)) (- 1)\<rparr>"
    by (auto simp: inverted_def Let_def)
  have inv: "m3_vec (block P) (m3_vec (m3_scale (m3_adjugate (block P)) (1 / m3_det (block P))) u) = u" for u
    using d by (simp add: m3_scale_vec m3_vec_vmul m3_adjugate_vec vmul_vmul vmul_one)
  show ?thesis
    unfolding Q mat_vec_def
    by (cases w; cases "column P") (simp add: m3_vec_vadd m3_vec_vmul inv)
qed


section \<open>The effect of a uniform rescale on world positions\<close>


lemma m3_diag_scaled_vec: "m3_vec (m3_diag (vmul s k)) v = vmul (m3_vec (m3_diag s) v) k"
  by (cases s; cases v) simp

lemma world_block_scaled:
  assumes "rotation obj' = rotation obj" "parent obj' = parent obj"
    "scale obj' = vmul (scale obj) k"
  shows "m3_vec (block (matrix_world obj')) v = vmul (m3_vec (block (matrix_world obj)) v) k"
  using assms
  by (simp add: matrix_world_def matrix_basis_def mat_mul_def m3_vec_mul m3_diag_scaled_vec
      m3_vec_vmul split: option.splits)







lemma world_translation:
  "to_translation (matrix_world obj) =
     (case parent obj of None \<Rightarrow> location obj | Some P \<Rightarrow> mat_vec P (location obj))"
  by (simp add: to_translation_def matrix_world_def matrix_basis_def mat_mul_def mat_vec_def
      split: option.splits)

lemma scaled_pivot:
  assumes "rotation obj' = rotation obj" "parent obj' = parent obj"
    "scale obj' = vmul (scale obj) k" "verts obj' = verts obj"
    "to_translation (matrix_world obj')
       = vadd (pivot obj) (vmul (vsub (to_translation (matrix_world obj)) (pivot obj)) k)"
  shows "pivot obj' = pivot obj"
proof -
  define a1 where "a1 = m3_vec (block (matrix_world obj)) (co (selected_verts obj ! 0))"
  define a2 where "a2 = m3_vec (block (matrix_world obj)) (co (selected_verts obj ! 1))"
  define t where "t = column (matrix_world obj)"
  have sv: "selected_verts obj' = selected_verts obj"
    using assms(4) by (simp add: selected_verts_def)
  have p: "pivot obj = vmul (vadd (vadd a1 t) (vadd a2 t)) (1 / 2)"
    by (simp add: pivot_def v1_world_def v2_world_def mat_vec_def a1_def a2_def t_def)
  have t': "column (matrix_world obj') = vadd (pivot obj) (vmul (vsub t (pivot obj)) k)"
    using assms(5) by (simp add: to_translation_def t_def)
  have "pivot obj' = vmul (vadd (vadd (vmul a1 k) (column (matrix_world obj')))
                               (vadd (vmul a2 k) (column (matrix_world obj')))) (1 / 2)"
    by (simp add: pivot_def v1_world_def v2_world_def mat_vec_def sv
        world_block_scaled [OF assms(1-3)] a1_def a2_def)
  also have "\<dots> = pivot obj"
    unfolding t' p
    by (cases a1; cases a2; cases t) (simp add: algebra_simps)
  finally show ?thesis .
qed


section \<open>The branches of the operator\<close>

lemma execute_checked:
  assumes "checks_pass context" "active_object context = Some obj"
  shows "execute t context =
     (let scale_factor = effective_target_distance t / current_distance obj in
      if \<bar>scale_factor - 1\<bar> < 1 / 1000000
      then (Inr FINISHED, clamp_reports t @ [(INFO, ''No scaling needed'')], context)
      else
        let new_world_loc = vadd (pivot obj)
              (vmul (vsub (to_translation (matrix_world obj)) (pivot obj)) scale_factor);
            obj1 = obj\<lparr>scale := vmul (scale obj) scale_factor\<rparr>
        in (case parent obj of
              Some P \<Rightarrow>
                (case inverted P of
                   Inl e \<Rightarrow> (Inl e, clamp_reports t, context\<lparr>active_object := Some obj1\<rparr>)
                 | Inr Pinv \<Rightarrow>
                     (Inr FINISHED, clamp_reports t @ [(INFO, ''Object scaled successfully'')],
                      context\<lparr>active_object :=
                        Some (obj1\<lparr>location := mat_vec Pinv new_world_loc\<rparr>)\<rparr>))
            | None \<Rightarrow>
                (Inr FINISHED, clamp_reports t @ [(INFO, ''Object scaled successfully'')],
                 context\<lparr>active_object := Some (obj1\<lparr>location := new_world_loc\<rparr>)\<rparr>)))"
  using assms
  by (simp add: execute_def checks_pass_def float_div_def Let_def)

lemma execute_unchecked:
  assumes "\<not> checks_pass context"
  shows "fst (execute t context) = Inr CANCELLED \<and> snd (snd (execute t context)) = context
         \<and> (\<exists>msg. fst (snd (execute t context)) = [(ERROR, msg)])"
  using assms
  by (auto simp: execute_def checks_pass_def split: option.splits)


text \<open>What a run that passed the checks and rescaled leaves behind.\<close>

lemma execute_rescaled:
  assumes "checks_pass context" "active_object context = Some obj"
    "\<not> \<bar>effective_target_distance t / current_distance obj - 1\<bar> < 1 / 1000000"
    "execute t context = (r, reports, context')"
  shows "\<exists>obj'. context' = context\<lparr>active_object := Some obj'\<rparr>
           \<and> obj_type obj' = obj_type obj \<and> rotation obj' = rotation obj
           \<and> parent obj' = parent obj \<and> verts obj' = verts obj
           \<and> scale obj' = vmul (scale obj) (effective_target_distance t / current_distance obj)
           \<and> (r = Inr FINISHED \<longrightarrow>
                to_translation (matrix_world obj') =
                  vadd (pivot obj) (vmul (vsub (to_translation (matrix_world obj)) (pivot obj))
                     (effective_target_distance t / current_distance obj)))
           \<and> (r = Inr FINISHED \<or> r = Inl ValueError \<and> location obj' = location obj)
           \<and> (r = Inr FINISHED \<longleftrightarrow> (case parent obj of None \<Rightarrow> True | Some P \<Rightarrow> m3_det (block P) \<noteq> 0))"
proof (cases "parent obj")
  case None
  with assms show ?thesis
    by (auto simp: execute_checked [OF assms(1,2)] Let_def world_translation)
next
  case (Some P)
  show ?thesis
  proof (cases "inverted P")
    case (Inl e)
    then have "e = ValueError" "m3_det (block P) = 0"
      by (auto simp: inverted_def Let_def split: if_splits)
    with assms Some Inl show ?thesis
      by (auto simp: execute_checked [OF assms(1,2)] Let_def)
  next
    case (Inr Pinv)
    then have "m3_det (block P) \<noteq> 0"
      by (auto simp: inverted_def Let_def split: if_splits)
    with assms Some Inr show ?thesis
      by (auto simp: execute_checked [OF assms(1,2)] Let_def world_translation
          inverted_apply [OF Inr])
  qed
qed




lemma pivot_fixed:
  assumes cp: "checks_pass context" and ob: "active_object context = Some obj"
    and ex: "execute t context = (Inr FINISHED, reports, context')"
  shows "\<exists>obj'. active_object context' = Some obj' \<and> pivot obj' = pivot obj"
proof (cases "\<bar>effective_target_distance t / current_distance obj - 1\<bar> < 1 / 1000000")
  case True
  then have "context' = context"
    using execute_checked [OF cp ob, of t] ex by (simp add: Let_def)
  with ob show ?thesis by simp
next
  case False
  from execute_rescaled [OF cp ob False ex] obtain obj' where
    c: "context' = context\<lparr>active_object := Some obj'\<rparr>"
    and k: "rotation obj' = rotation obj" "parent obj' = parent obj"
      "scale obj' = vmul (scale obj) (effective_target_distance t / current_distance obj)"
      "verts obj' = verts obj"
      "to_translation (matrix_world obj') =
         vadd (pivot obj) (vmul (vsub (to_translation (matrix_world obj)) (pivot obj))
           (effective_target_distance t / current_distance obj))"
    by blast
  from scaled_pivot [OF k] c show ?thesis by simp
qed


section \<open>The example scenes, evaluated\<close>

lemma edit_context_object: "active_object (edit_context obj) = Some obj"
  by (simp add: edit_context_def)

lemma segment_v1: "v1_world (segment_object x) = Vector 0 0 0"
  by (simp add: v1_world_def selected_verts_def matrix_world_def matrix_basis_def mat_vec_def
      segment_object_def)

lemma segment_v2: "v2_world (segment_object x) = Vector x 0 0"
  by (simp add: v2_world_def selected_verts_def matrix_world_def matrix_basis_def mat_vec_def
      segment_object_def)

lemma segment_distance: "current_distance (segment_object x) = \<bar>x\<bar>"
  by (simp add: current_distance_def segment_v1 segment_v2 vlength_def)


lemma segment_checks: "x \<noteq> 0 \<Longrightarrow> checks_pass (edit_context (segment_object x))"
  by (simp add: checks_pass_def edit_context_def segment_distance)
     (simp add: segment_object_def selected_verts_def)




section \<open>The distance that a run achieves\<close>





section \<open>Runs that change nothing\<close>

text \<open>
  C3. A run that passes the four checks and whose scale factor
  \<open>effective_target_distance / current_distance\<close> is within 1e-6 of 1 finishes with the
  note \<open>No scaling needed\<close> (after the clamp warning, when the target was clamped) and
  returns the context as it was: neither the scale nor the location of the object changes.
\<close>

theorem no_scaling_needed:
  assumes "checks_pass context" and "active_object context = Some obj"
    and "\<bar>effective_target_distance t / current_distance obj - 1\<bar> < 1 / 1000000"
  shows "execute t context =
           (Inr FINISHED, clamp_reports t @ [(INFO, ''No scaling needed'')], context)"
  using assms(3) by (simp add: execute_checked [OF assms(1,2)] Let_def)


theorem no_scaling_needed_witness:
  "checks_pass (edit_context (segment_object 2))
   \<and> active_object (edit_context (segment_object 2)) = Some (segment_object 2)
   \<and> \<bar>effective_target_distance 2 / current_distance (segment_object 2) - 1\<bar> < 1 / 1000000
   \<and> execute 2 (edit_context (segment_object 2)) =
       (Inr FINISHED, [(INFO, ''No scaling needed'')], edit_context (segment_object 2))"
proof -
  have c: "checks_pass (edit_context (segment_object 2))"
    by (rule segment_checks) simp
  have s: "\<bar>effective_target_distance 2 / current_distance (segment_object 2) - 1\<bar>
             < 1 / 1000000"
    by (simp add: effective_target_distance_def segment_distance)
  from no_scaling_needed [OF c edit_context_object s]
  show ?thesis
    using c s by (simp add: edit_context_object clamp_reports_def)
qed

section \<open>Running the operator again\<close>




section \<open>Rejected selections\<close>

text \<open>
  C7, as amended. On a mesh in edit mode with a number of selected vertices other than
  two, the run is cancelled with the one error report \<open>Select exactly two vertices\<close> and
  returns the context unchanged. The report is this fixed text: it does not include the
  number of selected vertices.
\<close>

theorem invalid_selection:
  assumes "active_object context = Some obj" and "obj_type obj = ''MESH''"
    and "mode context = ''EDIT_MESH''" and "length (selected_verts obj) \<noteq> 2"
  shows "execute t context =
           (Inr CANCELLED, [(ERROR, ''Select exactly two vertices'')], context)"
  using assms by (simp add: execute_def)


lemma triangle_selected: "length (selected_verts triangle_object) = 3"
  by (simp add: triangle_object_def segment_object_def selected_verts_def)

theorem invalid_selection_witness:
  "active_object (edit_context triangle_object) = Some triangle_object
   \<and> obj_type triangle_object = ''MESH''
   \<and> mode (edit_context triangle_object) = ''EDIT_MESH''
   \<and> length (selected_verts triangle_object) \<noteq> 2
   \<and> execute 1 (edit_context triangle_object) =
       (Inr CANCELLED, [(ERROR, ''Select exactly two vertices'')],
        edit_context triangle_object)"
proof -
  have a: "obj_type triangle_object = ''MESH''"
    by (simp add: triangle_object_def segment_object_def)
  have b: "mode (edit_context triangle_object) = ''EDIT_MESH''"
    by (simp add: edit_context_def)
  have c: "length (selected_verts triangle_object) \<noteq> 2"
    by (simp add: triangle_selected)
  from invalid_selection [OF edit_context_object a b c, of 1]
  show ?thesis
    using a b c by (simp add: edit_context_object)
qed

text \<open>
  With three vertices selected the only report is the fixed text, in which no digit
  occurs: the count 3 is not reported.
\<close>

theorem invalid_selection_counterexample:
  "length (selected_verts triangle_object) = 3
   \<and> fst (snd (execute 1 (edit_context triangle_object))) =
       [(ERROR, ''Select exactly two vertices'')]
   \<and> set ''Select exactly two vertices'' \<inter> set ''0123456789'' = {}"
  by (simp add: triangle_selected execute_def edit_context_def)
     (simp add: triangle_object_def segment_object_def)




section \<open>The division\<close>

text \<open>
  C9. Every call of \<open>execute\<close> returns, and what it returns is never the exception
  \<open>ZeroDivisionError\<close>: the quotient \<open>effective_target_distance / current_distance\<close> is
  computed only on the path where \<open>current_distance\<close> was found to be nonzero.
\<close>

theorem division_by_zero_unreachable:
  "\<exists>r reports context'. execute t context = (r, reports, context') \<and> r \<noteq> Inl ZeroDivisionError"
proof (cases "checks_pass context")
  case True
  then obtain obj where ob: "active_object context = Some obj"
    by (auto simp: checks_pass_def split: option.splits)
  have "fst (execute t context) \<noteq> Inl ZeroDivisionError"
    by (simp add: execute_checked [OF True ob] Let_def inverted_def
        split: option.splits sum.splits)
  then show ?thesis
    by (cases "execute t context") auto
next
  case False
  from execute_unchecked [OF this, of t] show ?thesis
    by (cases "execute t context") auto
qed


section \<open>The declared lower bound of the target\<close>



section \<open>A parent whose matrix has no inverse\<close>

lemma flattened_v1:
  "v1_world (flattened_object\<lparr>scale := Vector k k k\<rparr>) = Vector 0 0 0"
  by (simp add: v1_world_def selected_verts_def matrix_world_def matrix_basis_def mat_vec_def
      mat_mul_def flattened_object_def segment_object_def flat_parent_def)

lemma flattened_v2:
  "v2_world (flattened_object\<lparr>scale := Vector k k k\<rparr>) = Vector (k * 2) 0 0"
  by (simp add: v2_world_def selected_verts_def matrix_world_def matrix_basis_def mat_vec_def
      mat_mul_def flattened_object_def segment_object_def flat_parent_def)

lemma flattened_same: "flattened_object\<lparr>scale := Vector 1 1 1\<rparr> = flattened_object"
  by (simp add: flattened_object_def segment_object_def)

lemma flattened_distance: "current_distance flattened_object = 2"
  using flattened_v1 [of 1] flattened_v2 [of 1]
  by (simp add: flattened_same current_distance_def vlength_def)

lemma flattened_checks: "checks_pass (edit_context flattened_object)"
  by (simp add: checks_pass_def edit_context_def flattened_distance)
     (simp add: flattened_object_def segment_object_def selected_verts_def)

lemma flat_parent_singular: "inverted flat_parent = Inl ValueError"
  by (simp add: inverted_def flat_parent_def)

lemma execute_flattened:
  "execute 1 (edit_context flattened_object) =
     (Inl ValueError, [],
      edit_context (flattened_object\<lparr>scale := Vector (1 / 2) (1 / 2) (1 / 2)\<rparr>))"
  apply (subst execute_checked [OF flattened_checks edit_context_object])
  apply (simp add: Let_def flattened_distance effective_target_distance_def clamp_reports_def)
  apply (simp add: flattened_object_def segment_object_def flat_parent_singular
      edit_context_def clamp_reports_def)
  done

text \<open>
  C5. The four checks cancel the run with one error report and leave the context as it
  was (\<open>execute_unchecked\<close>). But the scale is multiplied before the parent's world matrix
  is inverted, and the inversion raises for a matrix without an inverse. With the parent
  that flattens the z axis, the vertices 2 apart and the target 1, the run passes the
  checks and ends in \<open>ValueError\<close> with no report, and the object keeps its location but
  has its scale halved: a failed run that changed the object.
\<close>

theorem singular_parent_partial_update:
  "checks_pass (edit_context flattened_object)
   \<and> fst (execute 1 (edit_context flattened_object)) = Inl ValueError
   \<and> fst (snd (execute 1 (edit_context flattened_object))) = []
   \<and> active_object (snd (snd (execute 1 (edit_context flattened_object)))) =
       Some (flattened_object\<lparr>scale := Vector (1 / 2) (1 / 2) (1 / 2)\<rparr>)
   \<and> scale flattened_object = Vector 1 1 1
   \<and> location (flattened_object\<lparr>scale := Vector (1 / 2) (1 / 2) (1 / 2)\<rparr>)
       = location flattened_object"
  by (simp add: flattened_checks execute_flattened edit_context_object)
     (simp add: flattened_object_def segment_object_def)

text \<open>
  C2. Whenever a run finishes, the midpoint of the two selected vertices, recomputed
  through the transform that the run leaves behind, is the midpoint from before the run
  (\<open>pivot_fixed\<close>). A run that passes the checks need not finish, though: in the run
  above, which ends in \<open>ValueError\<close>, the midpoint was \<open>(1, 0, 0)\<close> before and is
  \<open>(0.5, 0, 0)\<close> under the transform left behind.
\<close>

theorem singular_parent_moves_pivot:
  "checks_pass (edit_context flattened_object)
   \<and> pivot flattened_object = Vector 1 0 0
   \<and> active_object (snd (snd (execute 1 (edit_context flattened_object)))) =
       Some (flattened_object\<lparr>scale := Vector (1 / 2) (1 / 2) (1 / 2)\<rparr>)
   \<and> pivot (flattened_object\<lparr>scale := Vector (1 / 2) (1 / 2) (1 / 2)\<rparr>) = Vector (1 / 2) 0 0"
proof -
  have "pivot flattened_object = Vector 1 0 0"
    using flattened_v1 [of 1] flattened_v2 [of 1] by (simp add: flattened_same pivot_def)
  moreover have "pivot (flattened_object\<lparr>scale := Vector (1 / 2) (1 / 2) (1 / 2)\<rparr>)
                   = Vector (1 / 2) 0 0"
    by (simp add: pivot_def flattened_v1 flattened_v2)
  ultimately show ?thesis
    by (simp add: flattened_checks execute_flattened edit_context_object)
qed

section \<open>The clamped target\<close>





end
